theory Spec2Isabelle
  imports Main "HOL-Library.Sublist" "HOL-Library.Word"
begin

section \<open>JavaScript values and errors\<close>

text \<open>
  The three source files are TypeScript run as JavaScript: the wallet plug-in
  (\<^verbatim>\<open>packages/snap/src/index.ts\<close>), the summarisation endpoint
  (\<^verbatim>\<open>part_000\<close>) and the Lens profile endpoint (\<^verbatim>\<open>part_001\<close>).
  A \<open>string\<close> is the UTF-8 byte sequence of a JavaScript string. Values that
  arrive from JSON (HTTP bodies, stored state, decoded arguments) are \<open>jsval\<close>;
  a thrown exception or rejected promise is a \<open>js_error\<close>, and a computation
  that may throw returns \<open>js_error + 'a\<close> with \<open>Inl\<close> the exception.
\<close>

datatype jsval =
    JUndefined
  | JNull
  | JBool bool
  | JNum int
  | JStr string
  | JArr "jsval list"
  | JObj "(string \<times> jsval) list"

datatype js_error =
    ReferenceError string
  | TypeError string
  | SyntaxError string
  | JsError string
  | Rejected string

datatype event =
    HttpGet string
  | HttpPost string jsval
  | Fetch string
  | StateGet
  | GraphQuery jsval
  | LogError js_error

type_synonym 'a io = "(js_error + 'a) \<times> event list"

definition bind_err :: "js_error + 'a \<Rightarrow> ('a \<Rightarrow> js_error + 'b) \<Rightarrow> js_error + 'b" where
  "bind_err m f = (case m of Inl e \<Rightarrow> Inl e | Inr a \<Rightarrow> f a)"

definition bind_io :: "'a io \<Rightarrow> ('a \<Rightarrow> 'b io) \<Rightarrow> 'b io" where
  "bind_io m f =
     (case m of
        (Inl e, t) \<Rightarrow> (Inl e, t)
      | (Inr a, t) \<Rightarrow> (case f a of (r, t') \<Rightarrow> (r, t @ t')))"

definition lift_io :: "js_error + 'a \<Rightarrow> 'a io" where
  "lift_io m = (m, [])"

text \<open>
  Truthiness, property reads and string conversion, as the language defines
  them. \<open>JNum\<close> holds integer-valued numbers only. \<open>get_prop\<close> is the read
  of a named property that is none of the built-in ones (\<open>length\<close> and the
  like): the programs read \<open>result\<close>, \<open>ContractName\<close>, \<open>SourceCode\<close>,
  \<open>ABI\<close>, \<open>choices\<close>, \<open>message\<close>, \<open>content\<close>, \<open>type\<close>, \<open>name\<close>,
  \<open>data\<close>, \<open>handle\<close> and \<open>defaultProfile\<close>, which a primitive or an array
  does not have. \<open>get_index\<close> is the read of an element; on a string it
  yields a one-character string, here the byte at that position, of which
  the programs use no more than that it is not empty.
\<close>

fun truthy :: "jsval \<Rightarrow> bool" where
  "truthy JUndefined = False"
| "truthy JNull = False"
| "truthy (JBool b) = b"
| "truthy (JNum n) = (n \<noteq> 0)"
| "truthy (JStr s) = (s \<noteq> [])"
| "truthy (JArr xs) = True"
| "truthy (JObj kvs) = True"

fun get_prop :: "jsval \<Rightarrow> string \<Rightarrow> js_error + jsval" where
  "get_prop JUndefined k = Inl (TypeError (''Cannot read properties of undefined (reading '' @ k @ '')''))"
| "get_prop JNull k = Inl (TypeError (''Cannot read properties of null (reading '' @ k @ '')''))"
| "get_prop (JObj kvs) k = Inr (case map_of kvs k of None \<Rightarrow> JUndefined | Some v \<Rightarrow> v)"
| "get_prop v k = Inr JUndefined"

text \<open>Decimal digits of a number that is not negative, then of any integer.\<close>

function show_digits :: "int \<Rightarrow> string" where
  "show_digits n =
     (if n < 10 then [char_of (48 + n)]
      else show_digits (n div 10) @ [char_of (48 + n mod 10)])"
  by pat_completeness auto
termination
  by (relation "measure nat") auto

definition show_int :: "int \<Rightarrow> string" where
  "show_int i = (if i < 0 then CHR ''-'' # show_digits (- i) else show_digits i)"

fun get_index :: "jsval \<Rightarrow> nat \<Rightarrow> js_error + jsval" where
  "get_index JUndefined i = Inl (TypeError (''Cannot read properties of undefined (reading '' @ show_int (int i) @ '')''))"
| "get_index JNull i = Inl (TypeError (''Cannot read properties of null (reading '' @ show_int (int i) @ '')''))"
| "get_index (JArr xs) i = Inr (if i < length xs then xs ! i else JUndefined)"
| "get_index (JStr s) i = Inr (if i < length s then JStr [s ! i] else JUndefined)"
| "get_index (JObj kvs) i = Inr (case map_of kvs (show_int (int i)) of None \<Rightarrow> JUndefined | Some v \<Rightarrow> v)"
| "get_index v i = Inr JUndefined"

fun join_with :: "string \<Rightarrow> string list \<Rightarrow> string" where
  "join_with sep [] = []"
| "join_with sep [x] = x"
| "join_with sep (x # y # ys) = x @ sep @ join_with sep (y # ys)"

fun to_string :: "jsval \<Rightarrow> string" where
  "to_string JUndefined = ''undefined''"
| "to_string JNull = ''null''"
| "to_string (JBool b) = (if b then ''true'' else ''false'')"
| "to_string (JNum n) = show_int n"
| "to_string (JStr s) = s"
| "to_string (JArr xs) =
     join_with '','' (map (\<lambda>x. if x = JUndefined \<or> x = JNull then [] else to_string x) xs)"
| "to_string (JObj kvs) = ''[object Object]''"

section \<open>String primitives\<close>

text \<open>
  \<^verbatim>\<open>String.prototype.split(separator)\<close> for a non-empty string separator:
  scan left to right, cut at every non-overlapping occurrence, and keep the
  remainder as the last piece. Both call sites pass a constant separator
  (\<^verbatim>\<open>"function"\<close> and \<^verbatim>\<open>":"\<close>).
\<close>

function split_from :: "string \<Rightarrow> string \<Rightarrow> string \<Rightarrow> string list" where
  "split_from sep cur [] = [cur]"
| "split_from sep cur (c # cs) =
     (if sep \<noteq> [] \<and> prefix sep (c # cs)
      then cur # split_from sep [] (drop (length sep) (c # cs))
      else split_from sep (cur @ [c]) cs)"
  by pat_completeness auto
termination
  by (relation "measure (\<lambda>(sep, cur, rest). length rest)") auto

definition split_js :: "string \<Rightarrow> string \<Rightarrow> string list" where
  "split_js s sep = split_from sep [] s"

section \<open>The pattern of the source snippet extractor\<close>

text \<open>
  \<^verbatim>\<open>new RegExp(`(${functionName}.*{)`).test(item)\<close>. The pattern has no
  anchor and no flag, so \<open>test\<close> searches every start position; \<open>.\<close> matches
  any character but the four line terminators LF, CR, U+2028 and U+2029 (the
  last two are three bytes each in UTF-8); the closing \<open>{\<close> is a literal brace.
\<close>

definition line_terminator_at :: "string \<Rightarrow> bool" where
  "line_terminator_at s =
     (prefix [CHR 0x0A] s \<or> prefix [CHR 0x0D] s \<or>
      prefix [CHR 0xE2, CHR 0x80, CHR 0xA8] s \<or> prefix [CHR 0xE2, CHR 0x80, CHR 0xA9] s)"

fun dot_star_brace :: "string \<Rightarrow> bool" where
  "dot_star_brace [] = False"
| "dot_star_brace (c # cs) =
     (c = CHR ''{'' \<or> (\<not> line_terminator_at (c # cs) \<and> dot_star_brace cs))"

definition match_at :: "string \<Rightarrow> string \<Rightarrow> bool" where
  "match_at name s = (prefix name s \<and> dot_star_brace (drop (length name) s))"

fun regexp_search :: "string \<Rightarrow> string \<Rightarrow> bool" where
  "regexp_search name [] = match_at name []"
| "regexp_search name (c # cs) = (match_at name (c # cs) \<or> regexp_search name cs)"

text \<open>
  The function name is spliced into the pattern unescaped. When it contains
  none of the syntax characters of a regular expression it is matched
  literally, as above. Any other name is compiled by the engine of the host
  (\<open>RegExp_test\<close>, given the pattern source and the subject), which may throw
  a \<open>SyntaxError\<close>.
\<close>

definition regexp_syntax_chars :: "string" where
  "regexp_syntax_chars = CHR 0x5C # ''^$.*+?()[]{}|''"

definition literal_name :: "string \<Rightarrow> bool" where
  "literal_name name = list_all (\<lambda>c. c \<notin> set regexp_syntax_chars) name"

section \<open>The summarisation endpoint\<close>

subsection \<open>Collaborators\<close>

text \<open>
  What the endpoint reaches outside its own file is a parameter of the model:
  the process environment, the HTTP client (\<open>axios\<close>), the built-ins
  \<open>Number\<close>, \<open>JSON.parse\<close>, \<open>JSON.stringify\<close> and the regular-expression
  engine for non-literal patterns, and the \<open>ethers\<close> library. An HTTP call
  either rejects or delivers a status and a body. \<open>js_Number\<close> returns
  \<open>None\<close> for NaN and for every number that is not an integer: the chain
  switch compares with integer labels only.
\<close>

record axios_response =
  ax_status :: int
  ax_data :: jsval

text \<open>
  An ABI fragment as \<open>ethers.Interface\<close> holds it once the ABI is parsed:
  its kind, its name, the types of its inputs and its four-byte selector.
\<close>

record fragment =
  frag_type :: string
  frag_name :: string
  frag_inputs :: "string list"
  frag_selector :: "8 word list"

record api_env =
  env_var :: "string \<Rightarrow> string option"
  js_Number :: "jsval \<Rightarrow> int option"
  JSON_parse :: "jsval \<Rightarrow> js_error + jsval"
  JSON_stringify :: "jsval \<Rightarrow> string"
  RegExp_test :: "string \<Rightarrow> string \<Rightarrow> js_error + bool"
  axios_get :: "string \<Rightarrow> js_error + axios_response"
  axios_post :: "string \<Rightarrow> jsval \<Rightarrow> (string \<times> string) list \<Rightarrow> js_error + axios_response"
  Interface_new :: "jsval \<Rightarrow> js_error + fragment list"
  coder_decode :: "string \<Rightarrow> 8 word list \<Rightarrow> nat \<Rightarrow> js_error + jsval \<times> nat"

record vercel_request =
  req_method :: string
  req_query :: "(string \<times> jsval) list"

definition query_param :: "vercel_request \<Rightarrow> string \<Rightarrow> jsval" where
  "query_param request k = (case map_of (req_query request) k of None \<Rightarrow> JUndefined | Some v \<Rightarrow> v)"

definition env_string :: "api_env \<Rightarrow> string \<Rightarrow> string" where
  "env_string E k = (case env_var E k of None \<Rightarrow> ''undefined'' | Some v \<Rightarrow> v)"

subsection \<open>getFunctionSourceCode\<close>

definition pattern_test :: "api_env \<Rightarrow> string \<Rightarrow> string \<Rightarrow> js_error + bool" where
  "pattern_test E functionName item =
     (if literal_name functionName then Inr (regexp_search functionName item)
      else RegExp_test E (''('' @ functionName @ ''.*{)'') item)"

text \<open>The \<open>forEach\<close> loop: \<open>acc\<close> is \<open>functionSourceCode\<close>.\<close>

fun collect_matching :: "api_env \<Rightarrow> string \<Rightarrow> string \<Rightarrow> string list \<Rightarrow> js_error + string" where
  "collect_matching E functionName acc [] = Inr acc"
| "collect_matching E functionName acc (item # items) =
     (case pattern_test E functionName item of
        Inl e \<Rightarrow> Inl e
      | Inr matched \<Rightarrow>
          collect_matching E functionName (if matched then acc @ item else acc) items)"

definition getFunctionSourceCode :: "api_env \<Rightarrow> string \<Rightarrow> string \<Rightarrow> js_error + string" where
  "getFunctionSourceCode E contractCode functionName =
     collect_matching E functionName [] (split_js contractCode ''function'')"

subsection \<open>The ABI function resolver\<close>

text \<open>
  \<open>getContractFunctionDetails\<close> calls \<open>Interface.parseTransaction\<close> of
  the \<open>ethers\<close> library, which the repository does not contain. Its parts
  are modelled from section 4.1 of the specification; the parser of the ABI
  text (\<open>Interface_new\<close>) and the decoder of a single type
  (\<open>coder_decode\<close>: type, bytes, offset) stay parameters.
\<close>

text \<open>
  Modelled from the spec: the reading of the call data, which is missing with
  the library. The call data is hex-encoded bytes: \<open>0x\<close> and two
  hexadecimal digits for every byte; anything else is rejected.
\<close>

definition hex_digit :: "char \<Rightarrow> 8 word option" where
  "hex_digit c =
     map_of (zip ''0123456789abcdefABCDEF''
                 [0, 1, 2, 3, 4, 5, 6, 7, 8, 9, 10, 11, 12, 13, 14, 15, 10, 11, 12, 13, 14, 15]) c"

fun hex_bytes :: "string \<Rightarrow> 8 word list option" where
  "hex_bytes [] = Some []"
| "hex_bytes [c] = None"
| "hex_bytes (hi # lo # rest) =
     (case (hex_digit hi, hex_digit lo, hex_bytes rest) of
        (Some h, Some l, Some bs) \<Rightarrow> Some ((16 * h + l) # bs)
      | _ \<Rightarrow> None)"

fun getBytes :: "jsval \<Rightarrow> js_error + 8 word list" where
  "getBytes (JStr (c0 # cx # digits)) =
     (if c0 = CHR ''0'' \<and> cx = CHR ''x''
      then (case hex_bytes digits of
              Some bs \<Rightarrow> Inr bs
            | None \<Rightarrow> Inl (TypeError ''invalid BytesLike value''))
      else Inl (TypeError ''invalid BytesLike value''))"
| "getBytes v = Inl (TypeError ''invalid BytesLike value'')"

text \<open>
  Modelled from the spec: the library's decoding of the arguments. The bytes
  after the selector are decoded per each input's type, in order, one value
  for every declared input; a failure of one decoder fails the whole.
\<close>

fun unpack :: "api_env \<Rightarrow> string list \<Rightarrow> 8 word list \<Rightarrow> nat \<Rightarrow> js_error + jsval list" where
  "unpack E [] bs offset = Inr []"
| "unpack E (ty # tys) bs offset =
     (case coder_decode E ty bs offset of
        Inl e \<Rightarrow> Inl e
      | Inr (v, offset') \<Rightarrow>
          (case unpack E tys bs offset' of
             Inl e \<Rightarrow> Inl e
           | Inr vs \<Rightarrow> Inr (v # vs)))"

record TransactionDescription =
  td_name :: string
  td_args :: "jsval list"

text \<open>
  Modelled from the spec: the library's lookup by selector, among the
  function fragments of the ABI, in their order.
\<close>

definition getFunction :: "fragment list \<Rightarrow> 8 word list \<Rightarrow> fragment option" where
  "getFunction contractInterface selector =
     find (\<lambda>f. frag_selector f = selector)
       (filter (\<lambda>f. frag_type f = ''function'') contractInterface)"

text \<open>
  Modelled from the spec: \<open>Interface.parseTransaction\<close>. The selector is
  the first four bytes of the call data; without a fragment for it the result
  is \<open>null\<close> (\<open>None\<close>); with one, the name of the fragment and the
  decoded arguments.
\<close>

definition parseTransaction ::
  "api_env \<Rightarrow> fragment list \<Rightarrow> jsval \<Rightarrow> js_error + TransactionDescription option" where
  "parseTransaction E contractInterface txdata =
     bind_err (getBytes txdata) (\<lambda>bs.
       case getFunction contractInterface (take 4 bs) of
         None \<Rightarrow> Inr None
       | Some f \<Rightarrow>
           bind_err (unpack E (frag_inputs f) (drop 4 bs) 0) (\<lambda>args.
             Inr (Some \<lparr>td_name = frag_name f, td_args = args\<rparr>)))"

text \<open>
  \<open>arrContractABI.find((item) => item.type === "function" && item.name === functionName)\<close>:
  the first matching element, \<open>undefined\<close> without one; reading \<open>type\<close> of a
  \<open>null\<close> element throws, and so does \<open>find\<close> on a value that is no array.
\<close>

fun find_function_abi :: "string \<Rightarrow> jsval list \<Rightarrow> js_error + jsval" where
  "find_function_abi fname [] = Inr JUndefined"
| "find_function_abi fname (item # items) =
     bind_err (get_prop item ''type'') (\<lambda>ty.
       if ty = JStr ''function''
       then bind_err (get_prop item ''name'') (\<lambda>nm.
              if nm = JStr fname then Inr item else find_function_abi fname items)
       else find_function_abi fname items)"

fun array_find_function :: "jsval \<Rightarrow> string \<Rightarrow> js_error + jsval" where
  "array_find_function (JArr items) fname = find_function_abi fname items"
| "array_find_function JUndefined fname = Inl (TypeError ''Cannot read properties of undefined (reading find)'')"
| "array_find_function JNull fname = Inl (TypeError ''Cannot read properties of null (reading find)'')"
| "array_find_function v fname = Inl (TypeError ''arrContractABI.find is not a function'')"

record FunctionDetails =
  functionName :: string
  functionArgs :: "jsval list"
  functionAbi :: jsval

definition getContractFunctionDetails ::
  "api_env \<Rightarrow> jsval \<Rightarrow> jsval \<Rightarrow> js_error + FunctionDetails" where
  "getContractFunctionDetails E inputData contractABI =
     bind_err (Interface_new E contractABI) (\<lambda>contractInterface.
     bind_err (parseTransaction E contractInterface inputData) (\<lambda>decodedFunctionData.
       case decodedFunctionData of
         None \<Rightarrow> Inr \<lparr>functionName = [], functionArgs = [], functionAbi = JObj []\<rparr>
       | Some td \<Rightarrow>
           bind_err (JSON_parse E contractABI) (\<lambda>arrContractABI.
           bind_err (array_find_function arrContractABI (td_name td)) (\<lambda>found.
             Inr \<lparr>functionName = td_name td,
                  functionArgs = td_args td,
                  functionAbi = (if \<not> truthy found then JObj [] else found)\<rparr>))))"

subsection \<open>getContractDetails\<close>

definition etherscan_query :: "string \<Rightarrow> string" where
  "etherscan_query address = ''/api?module=contract&action=getsourcecode&address='' @ address"

definition getContractDetailsApiEndpoint :: "api_env \<Rightarrow> int option \<Rightarrow> jsval \<Rightarrow> string option" where
  "getContractDetailsApiEndpoint E chainId contractAddress =
     (if chainId = Some 1 then
        Some (''https://api.etherscan.io'' @ etherscan_query (to_string contractAddress)
              @ ''&apikey='' @ env_string E ''ETHERSCAN_API_KEY'')
      else if chainId = Some 5 then
        Some (''https://api-goerli.etherscan.io'' @ etherscan_query (to_string contractAddress)
              @ ''&apikey='' @ env_string E ''ETHERSCAN_API_KEY'')
      else if chainId = Some 137 then
        Some (''https://api.polygonscan.com'' @ etherscan_query (to_string contractAddress)
              @ ''&apikey='' @ env_string E ''POLYGONSCAN_API_KEY'')
      else if chainId = Some 59140 then
        Some (''https://explorer.goerli.linea.build'' @ etherscan_query (to_string contractAddress))
      else if chainId = Some 80001 then
        Some (''https://api-testnet.polygonscan.com'' @ etherscan_query (to_string contractAddress)
              @ ''&apikey='' @ env_string E ''POLYGONSCAN_API_KEY'')
      else None)"

record ContractDetails =
  contractName :: jsval
  contractCode :: jsval
  abi :: jsval

text \<open>The value \<open>false\<close> of the source is \<open>None\<close>.\<close>

definition read_contract_details :: "jsval \<Rightarrow> js_error + ContractDetails option" where
  "read_contract_details body =
     bind_err (get_prop body ''result'') (\<lambda>result.
       if \<not> truthy result then Inr None
       else bind_err (get_index result 0) (\<lambda>first.
         if \<not> truthy first then Inr None
         else bind_err (get_prop first ''ContractName'') (\<lambda>cname.
              bind_err (get_prop first ''SourceCode'') (\<lambda>ccode.
              bind_err (get_prop first ''ABI'') (\<lambda>cabi.
                if \<not> truthy cname \<or> \<not> truthy ccode \<or> \<not> truthy cabi then Inr None
                else Inr (Some \<lparr>contractName = cname, contractCode = ccode, abi = cabi\<rparr>))))))"

definition getContractDetails :: "api_env \<Rightarrow> int option \<Rightarrow> jsval \<Rightarrow> ContractDetails option io" where
  "getContractDetails E chainId contractAddress =
     (case getContractDetailsApiEndpoint E chainId contractAddress of
        None \<Rightarrow> (Inr None, [])
      | Some apiUri \<Rightarrow>
          bind_io (axios_get E apiUri, [HttpGet apiUri]) (\<lambda>response.
            lift_io (read_contract_details (ax_data response))))"


subsection \<open>getGptCompletion\<close>

definition bullet :: string where
  "bullet = [CHR 0xE3, CHR 0x83, CHR 0xBB]"

definition newline :: string where
  "newline = [CHR 0x0A]"

definition prompt_content :: "api_env \<Rightarrow> jsval \<Rightarrow> jsval \<Rightarrow> string \<Rightarrow> FunctionDetails \<Rightarrow> string" where
  "prompt_content E address cname functionSourceCode contractFunctionDetails =
     bullet @ ''ContractAddress: '' @ to_string address @ newline
     @ bullet @ ''ContractName: '' @ to_string cname @ newline
     @ bullet @ ''FunctionName: '' @ functionName contractFunctionDetails @ newline
     @ bullet @ ''FunctionArgs: '' @ to_string (JArr (functionArgs contractFunctionDetails)) @ newline
     @ bullet @ ''FunctionABI: '' @ JSON_stringify E (functionAbi contractFunctionDetails) @ newline
     @ bullet @ ''FunctionSourceCode: '' @ functionSourceCode @ newline
     @ ''Please tell me what the above smart contract executes.''"

definition getGptCompletion ::
  "api_env \<Rightarrow> jsval \<Rightarrow> jsval \<Rightarrow> string \<Rightarrow> FunctionDetails \<Rightarrow> jsval io" where
  "getGptCompletion E address cname functionSourceCode contractFunctionDetails =
     (let apiKey = env_string E ''GPT_API_KEY'';
          apiEndpoint = env_string E ''GPT_API_ENDPOINT'';
          apiUri = apiEndpoint @ ''/v1/chat/completions'';
          headers = [(''Content-Type'', ''application/json''),
                     (''Authorization'', ''Bearer '' @ apiKey)];
          payload = JObj [(''model'', JStr ''gpt-3.5-turbo''),
                          (''messages'', JArr [JObj [(''role'', JStr ''user''),
                             (''content'', JStr (prompt_content E address cname
                                functionSourceCode contractFunctionDetails))]])]
      in bind_io (axios_post E apiUri payload headers, [HttpPost apiUri payload]) (\<lambda>response.
           if ax_status response \<noteq> 200
           then lift_io (Inl (JsError ''Failed to get GPT completion.''))
           else lift_io
                  (bind_err (get_prop (ax_data response) ''choices'') (\<lambda>choices.
                   bind_err (get_index choices 0) (\<lambda>choice.
                   bind_err (get_prop choice ''message'') (\<lambda>message.
                     get_prop message ''content''))))))"

subsection \<open>getResponseData and the request handler\<close>

definition warning_text :: string where
  "warning_text =
     [CHR 0xE3, CHR 0x80, CHR 0x90] @ ''WARNING'' @ [CHR 0xE3, CHR 0x80, CHR 0x91]
     @ '' The safety of the function you are trying to execute cannot be confirmed because it has not verified.''"

text \<open>
  \<open>contractDetails.contractCode\<close> is whatever the explorer sent; \<open>split\<close> exists
  on strings only.
\<close>

fun call_getFunctionSourceCode :: "api_env \<Rightarrow> jsval \<Rightarrow> string \<Rightarrow> js_error + string" where
  "call_getFunctionSourceCode E (JStr code) fname = getFunctionSourceCode E code fname"
| "call_getFunctionSourceCode E v fname = Inl (TypeError ''contractCode.split is not a function'')"

text \<open>The body of the \<open>try\<close> block of \<open>getResponseData\<close>.\<close>

definition getResponseData_try :: "api_env \<Rightarrow> vercel_request \<Rightarrow> jsval io" where
  "getResponseData_try E request =
     (let strContractAddress = query_param request ''contractAddress'';
          strInputData = query_param request ''inputData'';
          chainIdNumber = js_Number E (query_param request ''chainId'')
      in bind_io (getContractDetails E chainIdNumber strContractAddress) (\<lambda>contractDetails.
           case contractDetails of
             None \<Rightarrow> lift_io (Inr (JStr ([] @ warning_text)))
           | Some details \<Rightarrow>
               bind_io (lift_io (getContractFunctionDetails E strInputData (abi details)))
                 (\<lambda>contractFunctionDetails.
               bind_io (lift_io (call_getFunctionSourceCode E (contractCode details)
                                   (functionName contractFunctionDetails)))
                 (\<lambda>functionSourceCode.
               bind_io (getGptCompletion E strContractAddress (contractName details)
                          functionSourceCode contractFunctionDetails)
                 (\<lambda>completion. lift_io (Inr (JStr ([] @ to_string completion))))))))"

definition generic_failure :: jsval where
  "generic_failure = JObj [(''error'', JStr ''An Error Occurred'')]"

text \<open>The \<open>catch\<close> clause logs the error and returns the fixed object.\<close>

definition getResponseData :: "api_env \<Rightarrow> vercel_request \<Rightarrow> jsval \<times> event list" where
  "getResponseData E request =
     (case getResponseData_try E request of
        (Inr responseData, t) \<Rightarrow> (responseData, t)
      | (Inl e, t) \<Rightarrow> (generic_failure, t @ [LogError e]))"

record vercel_response =
  res_status :: int
  res_headers :: "(string \<times> string list) list"
  res_body :: jsval

definition completion_handler :: "api_env \<Rightarrow> vercel_request \<Rightarrow> vercel_response \<times> event list" where
  "completion_handler E request =
     (case getResponseData E request of
        (responseData, t) \<Rightarrow>
          (\<lparr>res_status = 200, res_headers = [], res_body = JObj [(''data'', responseData)]\<rparr>, t))"

section \<open>The Lens profile endpoint\<close>

text \<open>
  The GraphQL client is the collaborator: \<open>apollo_query\<close> maps the variables
  of the query to the result it resolves with, or rejects. The handler does
  not await \<open>getDefaultProfile\<close>, so when that rejects no response is sent:
  the outcome of a request is a response or \<open>None\<close>.
\<close>

record profile_env =
  apollo_query :: "jsval \<Rightarrow> js_error + jsval"

definition getDefaultProfileRequest :: "profile_env \<Rightarrow> jsval \<Rightarrow> jsval io" where
  "getDefaultProfileRequest P request =
     (let variables = JObj [(''request'', request)]
      in bind_io (apollo_query P variables, [GraphQuery variables]) (\<lambda>result.
           lift_io (bind_err (get_prop result ''data'') (\<lambda>d. get_prop d ''defaultProfile''))))"

definition getDefaultProfile :: "profile_env \<Rightarrow> vercel_request \<Rightarrow> vercel_response io" where
  "getDefaultProfile P req =
     (let walletAddress = query_param req ''walletAddress''
      in bind_io (getDefaultProfileRequest P (JObj [(''ethereumAddress'', walletAddress)]))
           (\<lambda>result.
              let profile =
                    (if walletAddress = JStr ''0xd19B53464bBD3289823b278efb0461a903271004''
                     then JObj [(''handle'', JStr ''yusaka.test'')]
                     else JObj [(''handle'', JStr ''sakasaka.test'')])
              in lift_io (Inr \<lparr>res_status = 200, res_headers = [],
                               res_body = JObj [(''data'', profile)]\<rparr>)))"

definition profile_handler :: "profile_env \<Rightarrow> vercel_request \<Rightarrow> vercel_response option \<times> event list" where
  "profile_handler P req =
     (if req_method req = ''GET''
      then (case getDefaultProfile P req of
              (Inr res, t) \<Rightarrow> (Some res, t)
            | (Inl e, t) \<Rightarrow> (None, t))
      else (Some \<lparr>res_status = 405, res_headers = [(''Allow'', [''GET''])],
                  res_body = JStr (''Method '' @ req_method req @ '' Not Allowed'')\<rparr>, []))"


section \<open>The wallet plug-in\<close>

subsection \<open>Host and transaction\<close>

text \<open>
  The host supplies the global environment in which free identifiers are
  resolved, the outcome of \<open>snap_manageState\<close> with operation \<open>get\<close>, the
  network (\<open>fetch\<close>) and, for \<open>Promise.all\<close>, the order in which pending
  promises settle (indices into the array). A transaction carries its
  \<open>from\<close>, \<open>to\<close> and \<open>data\<close> as strings when present.
\<close>

record fetch_response =
  resp_ok :: bool
  resp_status :: int
  resp_json :: "js_error + jsval"

record snap_host =
  global_binding :: "string \<Rightarrow> jsval option"
  manage_state_get :: "js_error + jsval"
  host_fetch :: "string \<Rightarrow> js_error + fetch_response"
  settle_order :: "nat list"

record snap_transaction =
  tx_from :: "string option"
  tx_to :: "string option"
  tx_data :: "string option"

datatype component =
    Heading string
  | Text jsval
  | Copyable string
  | Divider
  | Panel "component list"

record OnTransactionResponse =
  content :: component

text \<open>
  The identifiers \<^verbatim>\<open>index.ts\<close> binds at run time: its imports, its
  module-level constants, and the parameters and locals of \<open>onTransaction\<close>.
  A reference to any other identifier is resolved in the global environment
  and throws a \<open>ReferenceError\<close> when the host has no such binding.
\<close>

definition index_ts_bindings :: "string list" where
  "index_ts_bindings =
     [''copyable'', ''divider'', ''heading'', ''panel'', ''text'',
      ''baseURL'', ''getLensProfile'', ''getLensFollowing'',
      ''getLensApprovedAddressList'', ''getGptCompletion'',
      ''onTransaction'', ''onRpcRequest'',
      ''chainId'', ''transaction'', ''data'', ''myWalletAddress'',
      ''contractAddress'', ''inputData'', ''extractedChainId'',
      ''lensProfile'', ''lensApprovedAddressList'', ''gptCompletion'',
      ''isVerifiedWorldId'']"

definition resolve_global :: "snap_host \<Rightarrow> string \<Rightarrow> js_error + jsval" where
  "resolve_global h x =
     (case global_binding h x of
        None \<Rightarrow> Inl (ReferenceError (x @ '' is not defined''))
      | Some v \<Rightarrow> Inr v)"

subsection \<open>The four lookups\<close>

definition baseURL :: string where
  "baseURL = ''https://eth-tokyo-social-security-snap-app.vercel.app/api''"

text \<open>The shared body: \<open>fetch\<close>, the \<open>response.ok\<close> check, \<open>response.json()\<close>.
  The request leaves when the function is called.\<close>

definition fetch_json :: "snap_host \<Rightarrow> string \<Rightarrow> jsval io" where
  "fetch_json h url =
     (bind_err (host_fetch h url) (\<lambda>response.
        if \<not> resp_ok response
        then Inl (JsError (''HTTP error! Status: '' @ show_int (resp_status response)))
        else resp_json response),
      [Fetch url])"

definition getLensProfile :: "snap_host \<Rightarrow> string \<Rightarrow> jsval io" where
  "getLensProfile h walletAddress =
     fetch_json h (baseURL @ ''/lens/profile?walletAddress='' @ walletAddress)"

definition getLensFollowing :: "snap_host \<Rightarrow> string \<Rightarrow> jsval io" where
  "getLensFollowing h walletAddress =
     fetch_json h (baseURL @ ''/lens/following?walletAddress='' @ walletAddress)"

definition getLensApprovedAddressList ::
  "snap_host \<Rightarrow> string \<Rightarrow> string \<Rightarrow> string \<Rightarrow> string \<Rightarrow> jsval io" where
  "getLensApprovedAddressList h walletAddress address calldata chain =
     fetch_json h (baseURL @ ''/lens/following?walletAddress='' @ walletAddress
                   @ ''&contractAddress='' @ address @ ''&inputData='' @ calldata
                   @ ''&chainId='' @ chain)"

definition getGptCompletion_snap :: "snap_host \<Rightarrow> string \<Rightarrow> string \<Rightarrow> string \<Rightarrow> jsval io" where
  "getGptCompletion_snap h address calldata chain =
     fetch_json h (baseURL @ ''/gpt/completion?contractAddress='' @ address
                   @ ''&inputData='' @ calldata @ ''&chainId='' @ chain)"

subsection \<open>Promise.all\<close>

text \<open>
  Every promise of the array is already running. The result is the list of
  values when all fulfil, and the reason of the rejection that settles first
  otherwise; the others are neither cancelled nor reported.
\<close>

definition first_rejection :: "nat list \<Rightarrow> (js_error + 'a) list \<Rightarrow> js_error option" where
  "first_rejection order results =
     (case filter (\<lambda>i. i < length results \<and> isl (results ! i)) (order @ [0..<length results]) of
        [] \<Rightarrow> None
      | i # _ \<Rightarrow> Some (projl (results ! i)))"

definition promise_all :: "nat list \<Rightarrow> 'a io list \<Rightarrow> 'a list io" where
  "promise_all order promises =
     (case first_rejection order (map fst promises) of
        Some e \<Rightarrow> (Inl e, concat (map snd promises))
      | None \<Rightarrow> (Inr (map (projr \<circ> fst) promises), concat (map snd promises)))"

subsection \<open>onTransaction\<close>

definition not_unique_human :: OnTransactionResponse where
  "not_unique_human =
     \<lparr>content = Panel
        [Heading ''Not a unique human!!'',
         Text (JStr ''Please prove that you are a unique human.''),
         Copyable ''https://eth-tokyo-social-security-snap-app.vercel.app'']\<rparr>"

definition leaf_emoji :: string where
  "leaf_emoji = [CHR 0xF0, CHR 0x9F, CHR 0x8C, CHR 0xBF]"

definition globe_emoji :: string where
  "globe_emoji = [CHR 0xF0, CHR 0x9F, CHR 0x8C, CHR 0x90]"

definition insights :: "jsval \<Rightarrow> jsval \<Rightarrow> jsval \<Rightarrow> OnTransactionResponse" where
  "insights handle lensApprovedAddressList completion =
     \<lparr>content = Panel
        [Heading (''Lens Insights'' @ leaf_emoji),
         Divider,
         Text (JStr ''LensProfile:''),
         Text handle,
         Text (JStr ''LensFollowingExecution:''),
         Text lensApprovedAddressList,
         Heading (''GPT Insights'' @ globe_emoji),
         Divider,
         Text completion]\<rparr>"

definition isVerifiedWorldId :: bool where
  "isVerifiedWorldId = False"

text \<open>Array destructuring: a missing element is \<open>undefined\<close>.\<close>

definition element :: "jsval list \<Rightarrow> nat \<Rightarrow> jsval" where
  "element values i = (if i < length values then values ! i else JUndefined)"

text \<open>Lines 126 to 149: the flag, its test and the two panels.\<close>

definition render :: "jsval list \<Rightarrow> js_error + OnTransactionResponse" where
  "render values =
     (let lensProfile = element values 0;
          lensApprovedAddressList = element values 1;
          gptCompletion = element values 2
      in if \<not> isVerifiedWorldId then Inr not_unique_human
         else bind_err (get_prop lensProfile ''data'') (\<lambda>d.
              bind_err (get_prop d ''handle'') (\<lambda>handle.
              bind_err (get_prop gptCompletion ''data'') (\<lambda>completion.
                Inr (insights handle lensApprovedAddressList completion)))))"

text \<open>\<open>chainId.split(':')[1]\<close>, as a template literal prints it.\<close>

definition extractedChainId :: "string \<Rightarrow> string" where
  "extractedChainId chainId =
     (case split_js chainId '':'' of
        _ # part # _ \<Rightarrow> part
      | _ \<Rightarrow> ''undefined'')"

text \<open>Lines 113 to 124: the three calls start in array order, then the join.\<close>

definition lookups :: "snap_host \<Rightarrow> string \<Rightarrow> string \<Rightarrow> string \<Rightarrow> string \<Rightarrow> jsval io list" where
  "lookups h myWalletAddress address calldata chain =
     [getLensProfile h myWalletAddress,
      getLensApprovedAddressList h myWalletAddress address calldata chain,
      getGptCompletion_snap h address calldata chain]"

definition onTransaction ::
  "snap_host \<Rightarrow> string \<Rightarrow> snap_transaction \<Rightarrow> OnTransactionResponse io" where
  "onTransaction h chainId transaction =
     bind_io (manage_state_get h, [StateGet]) (\<lambda>state.
     bind_io (lift_io (resolve_global h ''worldId'')) (\<lambda>worldId.
       if \<not> truthy state then lift_io (Inr not_unique_human)
       else
         (case (tx_from transaction, tx_to transaction, tx_data transaction) of
            (Some myWalletAddress, Some address, Some calldata) \<Rightarrow>
              if myWalletAddress = [] \<or> address = [] \<or> calldata = [] \<or> chainId = []
              then lift_io (Inl (JsError ''Missing required parameters''))
              else bind_io
                     (promise_all (settle_order h)
                        (lookups h myWalletAddress address calldata (extractedChainId chainId)))
                     (\<lambda>values. lift_io (render values))
          | _ \<Rightarrow> lift_io (Inl (JsError ''Missing required parameters'')))))"

section \<open>The specification's wording of the snippet extractor\<close>

text \<open>
  Section 4.2 as written: a segment is kept when it starts with the function
  name, followed eventually by an opening brace.
\<close>

definition starts_with_then_brace :: "string \<Rightarrow> string \<Rightarrow> bool" where
  "starts_with_then_brace fname segment =
     (prefix fname segment \<and> CHR ''{'' \<in> set (drop (length fname) segment))"

definition extractSourceSnippet_spec :: "string \<Rightarrow> string \<Rightarrow> string" where
  "extractSourceSnippet_spec sourceText fname =
     concat (filter (starts_with_then_brace fname) (split_js sourceText ''function''))"

text \<open>A string stays on one line when no line terminator starts anywhere in it.\<close>

fun has_line_terminator :: "string \<Rightarrow> bool" where
  "has_line_terminator [] = False"
| "has_line_terminator (c # cs) = (line_terminator_at (c # cs) \<or> has_line_terminator cs)"

section \<open>Sample inputs\<close>

definition transfer_fragment :: fragment where
  "transfer_fragment =
     \<lparr>frag_type = ''function'', frag_name = ''transfer'',
      frag_inputs = [''address'', ''uint256''],
      frag_selector = [0xa9, 0x05, 0x9c, 0xbb]\<rparr>"

definition transfer_item :: jsval where
  "transfer_item =
     JObj [(''type'', JStr ''function''), (''name'', JStr ''transfer''),
           (''inputs'', JArr [JObj [(''type'', JStr ''address'')],
                              JObj [(''type'', JStr ''uint256'')]])]"

definition token_source :: string where
  "token_source =
     ''contract T { function transfer(address to) public { } function transfer(address to, uint256 n) public { } }''"

definition verified_body :: jsval where
  "verified_body =
     JObj [(''status'', JStr ''1''),
           (''result'', JArr [JObj [(''SourceCode'', JStr token_source),
                                    (''ABI'', JStr ''[transfer-abi]''),
                                    (''ContractName'', JStr ''T'')]])]"

definition unverified_body :: jsval where
  "unverified_body =
     JObj [(''status'', JStr ''1''),
           (''result'', JArr [JObj [(''SourceCode'', JStr []),
                                    (''ABI'', JStr ''Contract source code not verified''),
                                    (''ContractName'', JStr [])]])]"

definition completion_body :: jsval where
  "completion_body =
     JObj [(''choices'', JArr [JObj [(''message'',
        JObj [(''role'', JStr ''assistant''), (''content'', JStr ''It moves tokens.'')])]])]"

text \<open>A coder that reads one 32-byte word, big-endian, whatever the type.\<close>

definition word_coder :: "string \<Rightarrow> 8 word list \<Rightarrow> nat \<Rightarrow> js_error + jsval \<times> nat" where
  "word_coder ty bs offset =
     (if offset + 32 \<le> length bs
      then Inr (JNum (foldl (\<lambda>acc b. acc * 256 + uint b) 0 (take 32 (drop offset bs))), offset + 32)
      else Inl (JsError ''BUFFER_OVERRUN''))"

definition sample_env :: api_env where
  "sample_env =
     \<lparr>env_var = (\<lambda>k. None),
      js_Number = (\<lambda>v. if v = JStr ''1'' then Some 1 else None),
      JSON_parse = (\<lambda>v. Inr (JArr [transfer_item])),
      JSON_stringify = (\<lambda>v. ''{}''),
      RegExp_test = (\<lambda>pat subject. Inl (SyntaxError ''Invalid regular expression'')),
      axios_get = (\<lambda>url. Inr \<lparr>ax_status = 200, ax_data = verified_body\<rparr>),
      axios_post = (\<lambda>url payload headers. Inr \<lparr>ax_status = 200, ax_data = completion_body\<rparr>),
      Interface_new = (\<lambda>v. Inr [transfer_fragment]),
      coder_decode = word_coder\<rparr>"

definition unverified_env :: api_env where
  "unverified_env =
     sample_env\<lparr>axios_get := (\<lambda>url. Inr \<lparr>ax_status = 200, ax_data = unverified_body\<rparr>)\<rparr>"

definition failing_completion_env :: api_env where
  "failing_completion_env =
     sample_env\<lparr>axios_post := (\<lambda>url payload headers.
        Inl (Rejected ''Request failed with status code 500''))\<rparr>"

definition transfer_calldata :: string where
  "transfer_calldata =
     ''0xa9059cbb''
     @ ''000000000000000000000000d19b53464bbd3289823b278efb0461a903271004''
     @ ''0000000000000000000000000000000000000000000000000000000000000064''"

definition transfer_bytes :: "8 word list" where
  "transfer_bytes =
     [0xa9, 0x05, 0x9c, 0xbb]
     @ replicate 12 0
     @ [0xd1, 0x9b, 0x53, 0x46, 0x4b, 0xbd, 0x32, 0x89, 0x82, 0x3b,
        0x27, 0x8e, 0xfb, 0x04, 0x61, 0xa9, 0x03, 0x27, 0x10, 0x04]
     @ replicate 31 0 @ [0x64]"

definition sample_request :: vercel_request where
  "sample_request =
     \<lparr>req_method = ''GET'',
      req_query = [(''contractAddress'', JStr ''0xABC''),
                   (''inputData'', JStr transfer_calldata),
                   (''chainId'', JStr ''1'')]\<rparr>"

definition two_styles_source :: string where
  "two_styles_source =
     ''function foo()'' @ newline @ ''{ }'' @ newline
     @ ''function bar() { foo(); if (a) { } }''"

definition profile_request :: vercel_request where
  "profile_request =
     \<lparr>req_method = ''GET'',
      req_query = [(''walletAddress'', JStr ''0xd19B53464bBD3289823b278efb0461a903271004'')]\<rparr>"

definition lens_env :: "jsval \<Rightarrow> profile_env" where
  "lens_env profile =
     \<lparr>apollo_query = (\<lambda>variables. Inr (JObj [(''data'', JObj [(''defaultProfile'', profile)])]))\<rparr>"

definition ok_response :: fetch_response where
  "ok_response =
     \<lparr>resp_ok = True, resp_status = 200, resp_json = Inr (JObj [(''data'', JStr ''ok'')])\<rparr>"

definition plain_host :: snap_host where
  "plain_host =
     \<lparr>global_binding = (\<lambda>x. None),
      manage_state_get = Inr (JObj [(''worldId'', JStr ''0x1'')]),
      host_fetch = (\<lambda>url. Inr ok_response),
      settle_order = [0, 1, 2]\<rparr>"

definition state_rejecting_host :: snap_host where
  "state_rejecting_host = plain_host\<lparr>manage_state_get := Inl (Rejected ''state unavailable'')\<rparr>"

definition worldId_host :: snap_host where
  "worldId_host =
     plain_host\<lparr>global_binding := (\<lambda>x. if x = ''worldId'' then Some (JStr ''0x1'') else None)\<rparr>"

definition approval_failing_host :: snap_host where
  "approval_failing_host =
     worldId_host\<lparr>host_fetch := (\<lambda>url.
        if prefix (baseURL @ ''/lens/following'') url
        then Inr \<lparr>resp_ok = False, resp_status = 500, resp_json = Inl (SyntaxError ''Unexpected end of JSON input'')\<rparr>
        else Inr ok_response)\<rparr>"

definition sample_transaction :: snap_transaction where
  "sample_transaction =
     \<lparr>tx_from = Some ''0xd19B53464bBD3289823b278efb0461a903271004'',
      tx_to = Some ''0xA0b86991c6218b36c1d19D4a2e9Eb0cE3606eB48'',
      tx_data = Some ''0xa9059cbb''\<rparr>"


section \<open>Properties of the source snippet extractor\<close>

lemma line_terminator_at_append: "line_terminator_at s \<Longrightarrow> line_terminator_at (s @ t)"
  by (auto simp: line_terminator_at_def prefix_def)

lemma dot_star_brace_iff: "dot_star_brace s \<longleftrightarrow> (\<exists>mid post. s = mid @ CHR ''{'' # post \<and> \<not> has_line_terminator mid)"
proof
  show "dot_star_brace s \<Longrightarrow> \<exists>mid post. s = mid @ CHR ''{'' # post \<and> \<not> has_line_terminator mid"
  proof (induction s)
    case Nil then show ?case by simp
  next
    case (Cons c cs)
    show ?case
    proof (cases "c = CHR ''{''")
      case True
      then have "c # cs = [] @ CHR ''{'' # cs \<and> \<not> has_line_terminator []" by simp
      then show ?thesis by blast
    next
      case False
      with Cons.prems have nlt: "\<not> line_terminator_at (c # cs)" and d: "dot_star_brace cs" by auto
      from Cons.IH[OF d] obtain mid post where cs: "cs = mid @ CHR ''{'' # post" and m: "\<not> has_line_terminator mid" by blast
      have "\<not> line_terminator_at (c # mid)"
        using nlt line_terminator_at_append[of "c # mid" "CHR ''{'' # post"] cs by auto
      with m have "\<not> has_line_terminator (c # mid)" by simp
      moreover have "c # cs = (c # mid) @ CHR ''{'' # post" using cs by simp
      ultimately show ?thesis by blast
    qed
  qed
next
  assume "\<exists>mid post. s = mid @ CHR ''{'' # post \<and> \<not> has_line_terminator mid"
  then obtain mid post where s: "s = mid @ CHR ''{'' # post" and m: "\<not> has_line_terminator mid" by blast
  from m show "dot_star_brace s" unfolding s
  proof (induction mid)
    case Nil then show ?case by simp
  next
    case (Cons a mid)
    then have d: "dot_star_brace (mid @ CHR ''{'' # post)" and n: "\<not> line_terminator_at (a # mid)" by auto
    have "\<not> line_terminator_at (a # mid @ CHR ''{'' # post)"
      using n by (cases mid; cases "tl mid") (auto simp: line_terminator_at_def)
    with d show ?case by simp
  qed
qed

lemma regexp_search_iff_suffix: "regexp_search name s \<longleftrightarrow> (\<exists>pre rest. s = pre @ rest \<and> match_at name rest)"
proof (induction s)
  case Nil then show ?case by simp
next
  case (Cons c cs)
  show ?case
  proof
    assume "regexp_search name (c # cs)"
    then consider "match_at name (c # cs)" | "regexp_search name cs" by auto
    then show "\<exists>pre rest. c # cs = pre @ rest \<and> match_at name rest"
    proof cases
      case 1 then have "c # cs = [] @ (c # cs) \<and> match_at name (c # cs)" by simp
      then show ?thesis by blast
    next
      case 2 with Cons.IH obtain pre rest where "cs = pre @ rest" "match_at name rest" by blast
      then have "c # cs = (c # pre) @ rest \<and> match_at name rest" by simp
      then show ?thesis by blast
    qed
  next
    assume "\<exists>pre rest. c # cs = pre @ rest \<and> match_at name rest"
    then obtain pre rest where e: "c # cs = pre @ rest" and m: "match_at name rest" by blast
    show "regexp_search name (c # cs)"
    proof (cases pre)
      case Nil with e have "rest = c # cs" by simp
      with m show ?thesis by simp
    next
      case (Cons p ps) with e have "cs = ps @ rest" by simp
      with m Cons.IH show ?thesis by auto
    qed
  qed
qed

lemma match_at_iff: "match_at name s \<longleftrightarrow> (\<exists>mid post. s = name @ mid @ CHR ''{'' # post \<and> \<not> has_line_terminator mid)"
proof
  assume "match_at name s"
  then obtain zs where s: "s = name @ zs" and d: "dot_star_brace zs"
    by (auto simp: match_at_def prefix_def)
  from d obtain mid post where "zs = mid @ CHR ''{'' # post" "\<not> has_line_terminator mid"
    unfolding dot_star_brace_iff by blast
  with s show "\<exists>mid post. s = name @ mid @ CHR ''{'' # post \<and> \<not> has_line_terminator mid" by auto
next
  assume "\<exists>mid post. s = name @ mid @ CHR ''{'' # post \<and> \<not> has_line_terminator mid"
  then obtain mid post where s: "s = name @ mid @ CHR ''{'' # post" and m: "\<not> has_line_terminator mid" by blast
  from m have "dot_star_brace (mid @ CHR ''{'' # post)" unfolding dot_star_brace_iff by blast
  with s show "match_at name s" by (simp add: match_at_def)
qed

lemma collect_matching_literal: "literal_name n \<Longrightarrow> collect_matching E n acc items = Inr (acc @ concat (filter (regexp_search n) items))"
  by (induction items arbitrary: acc) (auto simp: pattern_test_def)

lemma split_from_sublist: "seg \<in> set (split_from sep cur rest) \<Longrightarrow> sublist seg (cur @ rest)"
proof (induction sep cur rest rule: split_from.induct)
  case (1 sep cur) then show ?case by simp
next
  case (2 sep cur c cs)
  show ?case
  proof (cases "sep \<noteq> [] \<and> prefix sep (c # cs)")
    case True
    with 2 consider "seg = cur" | "sublist seg (drop (length sep) (c # cs))" by auto
    then show ?thesis
    proof cases
      case 1 then show ?thesis by simp
    next
      case 2
      have "sublist (drop (length sep) (c # cs)) (cur @ c # cs)"
        by (metis sublist_drop sublist_append_leftI sublist_order.order_trans)
      with 2 show ?thesis using sublist_order.order_trans by blast
    qed
  next
    case False with 2 show ?thesis by auto 
  qed
qed

lemma concat_split_from_subseq: "subseq (concat (split_from sep cur rest)) (cur @ rest)"
proof (induction sep cur rest rule: split_from.induct)
  case (1 sep cur) then show ?case by simp
next
  case (2 sep cur c cs)
  show ?case
  proof (cases "sep \<noteq> [] \<and> prefix sep (c # cs)")
    case True
    with 2 have "subseq (concat (split_from sep [] (drop (length sep) (c # cs)))) (drop (length sep) (c # cs))" by simp
    moreover have "subseq (drop (length sep) (c # cs)) (c # cs)" by (simp add: sublist_imp_subseq)
    ultimately have "subseq (concat (split_from sep [] (drop (length sep) (c # cs)))) (c # cs)"
      using subseq_order.order_trans by blast
    then show ?thesis using True by (simp add: subseq_append')
  next
    case False with 2 show ?thesis by auto 
  qed
qed

lemma collect_matching_kept: "collect_matching E n acc items = Inr r \<Longrightarrow>
   r = acc @ concat (filter (\<lambda>seg. pattern_test E n seg = Inr True) items)"
proof (induction items arbitrary: acc)
  case Nil then show ?case by simp
next
  case (Cons a items)
  from Cons.prems obtain b where b: "pattern_test E n a = Inr b"
    and c: "collect_matching E n (if b then acc @ a else acc) items = Inr r"
    by (auto split: sum.splits)
  from Cons.IH[OF c] b show ?case by (cases b) auto
qed

lemma regexp_search_iff:
  "regexp_search name s \<longleftrightarrow>
     (\<exists>pre mid post. s = pre @ name @ mid @ CHR ''{'' # post \<and> \<not> has_line_terminator mid)"
  unfolding regexp_search_iff_suffix match_at_iff by auto

lemma sublist_concat_single_filter:
  "length (filter P xs) \<le> 1 \<Longrightarrow> (\<And>x. x \<in> set xs \<Longrightarrow> sublist x ys) \<Longrightarrow> sublist (concat (filter P xs)) ys"
proof -
  assume len: "length (filter P xs) \<le> 1" and sub: "\<And>x. x \<in> set xs \<Longrightarrow> sublist x ys"
  show ?thesis
  proof (cases "filter P xs")
    case Nil then show ?thesis by simp
  next
    case (Cons a as)
    with len have as: "as = []" by simp
    from Cons have "a \<in> set (filter P xs)" by simp
    then have "a \<in> set xs" by simp
    with sub have "sublist a ys" by blast
    with Cons as show ?thesis by simp
  qed
qed

lemma subseq_concat_filter: "subseq (concat (filter P xs)) (concat xs)"
  by (induction xs) (auto intro: subseq_drop_many simp: subseq_append')

text \<open>
  C4 (amended). For a function name without regular-expression syntax
  characters, \<open>getFunctionSourceCode\<close> splits the contract code on the keyword
  \<open>function\<close> and returns the concatenation, in order, of exactly those
  segments in which the name occurs anywhere and is followed, later on the
  same line, by an opening brace; every such segment is included, so two
  overloads of a name both appear.
\<close>

theorem getFunctionSourceCode_keeps_every_match:
  assumes "literal_name fname"
  shows "getFunctionSourceCode E code fname =
           Inr (concat (filter (regexp_search fname) (split_js code ''function'')))
         \<and> (\<forall>seg. regexp_search fname seg \<longleftrightarrow>
               (\<exists>pre mid post. seg = pre @ fname @ mid @ CHR ''{'' # post
                                \<and> \<not> has_line_terminator mid))"
  using assms regexp_search_iff
  by (simp add: getFunctionSourceCode_def collect_matching_literal)

theorem getFunctionSourceCode_keeps_every_match_witness:
  "literal_name ''transfer''
   \<and> getFunctionSourceCode sample_env token_source ''transfer'' =
       Inr '' transfer(address to) public { }  transfer(address to, uint256 n) public { } }''"
proof -
  have lit: "literal_name ''transfer''" by code_simp
  have "concat (filter (regexp_search ''transfer'') (split_js token_source ''function'')) =
          '' transfer(address to) public { }  transfer(address to, uint256 n) public { } }''"
    by code_simp
  with getFunctionSourceCode_keeps_every_match [OF lit, of sample_env token_source] lit
  show ?thesis by simp
qed

theorem getFunctionSourceCode_starts_with_counterexample:
  "getFunctionSourceCode sample_env two_styles_source ''foo'' = Inr '' bar() { foo(); if (a) { } }''
   \<and> extractSourceSnippet_spec two_styles_source ''foo'' = []"
  by code_simp

text \<open>
  C5 (amended). Whenever \<open>getFunctionSourceCode\<close> returns, the snippet is a
  subsequence of the contract code: the kept segments in source order, with
  the keyword \<open>function\<close> and the other segments left out. It is a contiguous
  substring when at most one segment matches, and may be empty.
\<close>

theorem getFunctionSourceCode_subsequence:
  assumes "getFunctionSourceCode E code fname = Inr snippet"
  shows "subseq snippet code
         \<and> (length (filter (\<lambda>seg. pattern_test E fname seg = Inr True)
                      (split_js code ''function'')) \<le> 1
              \<longrightarrow> sublist snippet code)"
proof -
  let ?segs = "split_js code ''function''"
  let ?P = "\<lambda>seg. pattern_test E fname seg = Inr True"
  from assms have snippet: "snippet = concat (filter ?P ?segs)"
    using collect_matching_kept [of E fname "[]" ?segs snippet]
    by (simp add: getFunctionSourceCode_def)
  have "subseq (concat (filter ?P ?segs)) (concat ?segs)"
    by (rule subseq_concat_filter)
  moreover have "subseq (concat ?segs) code"
    using concat_split_from_subseq [of "''function''" "[]" code] by (simp add: split_js_def)
  ultimately have "subseq snippet code"
    unfolding snippet using subseq_order.order_trans by blast
  moreover have "length (filter ?P ?segs) \<le> 1 \<Longrightarrow> sublist snippet code"
    unfolding snippet
    by (rule sublist_concat_single_filter)
       (use split_from_sublist [of _ "''function''" "[]" code] in \<open>auto simp: split_js_def\<close>)
  ultimately show ?thesis by blast
qed

theorem getFunctionSourceCode_subsequence_witness:
  "getFunctionSourceCode sample_env two_styles_source ''bar'' = Inr '' bar() { foo(); if (a) { } }''
   \<and> length (filter (\<lambda>seg. pattern_test sample_env ''bar'' seg = Inr True)
               (split_js two_styles_source ''function'')) \<le> 1
   \<and> subseq '' bar() { foo(); if (a) { } }'' two_styles_source
   \<and> sublist '' bar() { foo(); if (a) { } }'' two_styles_source"
proof -
  have r: "getFunctionSourceCode sample_env two_styles_source ''bar'' = Inr '' bar() { foo(); if (a) { } }''"
    by code_simp
  have l: "length (filter (\<lambda>seg. pattern_test sample_env ''bar'' seg = Inr True)
               (split_js two_styles_source ''function'')) \<le> 1"
    by code_simp
  from getFunctionSourceCode_subsequence [OF r] r l show ?thesis by blast
qed

theorem getFunctionSourceCode_substring_counterexample:
  "getFunctionSourceCode sample_env token_source ''transfer'' =
     Inr '' transfer(address to) public { }  transfer(address to, uint256 n) public { } }''
   \<and> \<not> sublist '' transfer(address to) public { }  transfer(address to, uint256 n) public { } }''
          token_source"
  by code_simp


section \<open>Properties of the ABI function resolver\<close>

lemma getFunction_None_iff:
  "getFunction frags sel = None \<longleftrightarrow>
     (\<forall>f \<in> set frags. frag_type f = ''function'' \<longrightarrow> frag_selector f \<noteq> sel)"
  by (auto simp: getFunction_def find_None_iff)

lemma unpack_length: "unpack E tys bs offset = Inr vs \<Longrightarrow> length vs = length tys"
  by (induction tys arbitrary: offset vs) (auto split: sum.splits prod.splits)

lemma parseTransaction_Some:
  assumes "getBytes txdata = Inr bs"
      and "getFunction frags (take 4 bs) = Some f"
      and "parseTransaction E frags txdata = Inr (Some td)"
  shows "td_name td = frag_name f \<and> length (td_args td) = length (frag_inputs f)"
proof -
  from assms obtain args where u: "unpack E (frag_inputs f) (drop 4 bs) 0 = Inr args"
    and td: "td = \<lparr>td_name = frag_name f, td_args = args\<rparr>"
    by (auto simp: parseTransaction_def bind_err_def split: sum.splits)
  from unpack_length [OF u] td show ?thesis by simp
qed

text \<open>
  C3. When the ABI parses into fragments and the call data is hex-encoded
  bytes, and no function fragment has the selector that the first four bytes
  of the call data form, \<open>getContractFunctionDetails\<close> returns, without
  throwing, the details with the empty name, no arguments and the empty ABI
  object.
\<close>

theorem getContractFunctionDetails_no_match:
  assumes "Interface_new E contractABI = Inr frags"
      and "getBytes inputData = Inr bs"
      and "\<forall>f \<in> set frags. frag_type f = ''function'' \<longrightarrow> frag_selector f \<noteq> take 4 bs"
  shows "getContractFunctionDetails E inputData contractABI =
           Inr \<lparr>functionName = [], functionArgs = [], functionAbi = JObj []\<rparr>"
proof -
  from assms(3) have "getFunction frags (take 4 bs) = None"
    by (simp add: getFunction_None_iff)
  with assms(2) have "parseTransaction E frags inputData = Inr None"
    by (simp add: parseTransaction_def bind_err_def)
  with assms(1) show ?thesis
    by (simp add: getContractFunctionDetails_def bind_err_def)
qed

theorem getContractFunctionDetails_no_match_witness:
  "Interface_new sample_env (JStr ''[transfer-abi]'') = Inr [transfer_fragment]
   \<and> getBytes (JStr ''0x12345678'') = Inr [0x12, 0x34, 0x56, 0x78]
   \<and> frag_selector transfer_fragment = [0xa9, 0x05, 0x9c, 0xbb]
   \<and> getContractFunctionDetails sample_env (JStr ''0x12345678'') (JStr ''[transfer-abi]'') =
       Inr \<lparr>functionName = [], functionArgs = [], functionAbi = JObj []\<rparr>"
proof -
  have i: "Interface_new sample_env (JStr ''[transfer-abi]'') = Inr [transfer_fragment]"
    by (simp add: sample_env_def)
  have b: "getBytes (JStr ''0x12345678'') = Inr [0x12, 0x34, 0x56, 0x78]"
    by code_simp
  have n: "\<forall>f \<in> set [transfer_fragment].
         frag_type f = ''function'' \<longrightarrow> frag_selector f \<noteq> take 4 [0x12, 0x34, 0x56, 0x78]"
    by (simp add: transfer_fragment_def)
  have t: "frag_selector transfer_fragment = [0xa9, 0x05, 0x9c, 0xbb]"
    by (simp add: transfer_fragment_def)
  from getContractFunctionDetails_no_match [OF i b n] i b t show ?thesis by blast
qed

text \<open>
  C8. When a function fragment of the parsed ABI has the selector of the call
  data and \<open>getContractFunctionDetails\<close> returns (decoding succeeded), the
  details carry the name of that fragment and as many decoded arguments as
  the fragment declares inputs.
\<close>

theorem decoded_argument_count:
  assumes "Interface_new E contractABI = Inr frags"
      and "getBytes inputData = Inr bs"
      and "getFunction frags (take 4 bs) = Some f"
      and "getContractFunctionDetails E inputData contractABI = Inr details"
  shows "length (functionArgs details) = length (frag_inputs f)
         \<and> functionName details = frag_name f"
proof -
  from assms(1,4) obtain decoded where
    p: "parseTransaction E frags inputData = Inr decoded"
    by (auto simp: getContractFunctionDetails_def bind_err_def split: sum.splits)
  from assms(2,3) p obtain td where d: "decoded = Some td"
    by (auto simp: parseTransaction_def bind_err_def split: sum.splits)
  from parseTransaction_Some [OF assms(2,3) p [unfolded d]]
  have td: "td_name td = frag_name f" "length (td_args td) = length (frag_inputs f)" by simp_all
  from assms(1,4) p d have "functionArgs details = td_args td \<and> functionName details = td_name td"
    by (auto simp: getContractFunctionDetails_def bind_err_def split: sum.splits)
  with td show ?thesis by simp
qed

theorem decoded_argument_count_witness:
  "Interface_new sample_env (JStr ''[transfer-abi]'') = Inr [transfer_fragment]
   \<and> getFunction [transfer_fragment] [0xa9, 0x05, 0x9c, 0xbb] = Some transfer_fragment
   \<and> getContractFunctionDetails sample_env (JStr transfer_calldata) (JStr ''[transfer-abi]'') =
       Inr \<lparr>functionName = ''transfer'',
            functionArgs = [JNum 1196642940848127196523004003649183203309874778116, JNum 100],
            functionAbi = transfer_item\<rparr>
   \<and> length [JNum 1196642940848127196523004003649183203309874778116, JNum 100]
       = length (frag_inputs transfer_fragment)"
proof -
  have i: "Interface_new sample_env (JStr ''[transfer-abi]'') = Inr [transfer_fragment]"
    by (simp add: sample_env_def)
  have b: "getBytes (JStr transfer_calldata) = Inr transfer_bytes"
    by code_simp
  have t: "take 4 transfer_bytes = [0xa9, 0x05, 0x9c, 0xbb]"
    by (simp add: transfer_bytes_def)
  have g: "getFunction [transfer_fragment] [0xa9, 0x05, 0x9c, 0xbb] = Some transfer_fragment"
    by (simp add: getFunction_def transfer_fragment_def)
  have r: "getContractFunctionDetails sample_env (JStr transfer_calldata) (JStr ''[transfer-abi]'') =
       Inr \<lparr>functionName = ''transfer'',
            functionArgs = [JNum 1196642940848127196523004003649183203309874778116, JNum 100],
            functionAbi = transfer_item\<rparr>"
    by code_simp
  from decoded_argument_count [OF i b g [folded t] r] i g r show ?thesis by simp
qed

section \<open>Properties of the summarisation pipeline\<close>

lemma getContractDetails_trace:
  "snd (getContractDetails E chainId address) =
     (case getContractDetailsApiEndpoint E chainId address of
        None \<Rightarrow> []
      | Some apiUri \<Rightarrow> [HttpGet apiUri])"
  by (auto simp: getContractDetails_def bind_io_def lift_io_def split: option.splits sum.splits)

lemma getContractDetails_no_post:
  "HttpPost url payload \<notin> set (snd (getContractDetails E chainId address))"
  by (simp add: getContractDetails_trace split: option.splits)

lemma getResponseData_try_unverified:
  assumes "fst (getContractDetails E (js_Number E (query_param request ''chainId''))
                  (query_param request ''contractAddress'')) = Inr None"
  shows "getResponseData_try E request =
           (Inr (JStr warning_text),
            snd (getContractDetails E (js_Number E (query_param request ''chainId''))
                   (query_param request ''contractAddress'')))"
  using assms
  by (cases "getContractDetails E (js_Number E (query_param request ''chainId''))
                  (query_param request ''contractAddress'')")
     (simp add: getResponseData_try_def bind_io_def lift_io_def Let_def)

text \<open>
  C6. When \<open>getContractDetails\<close> returns \<open>false\<close> for the request,
  \<open>getResponseData\<close> returns the literal warning, the handler answers with
  it, and no request is posted to the completion service.
\<close>

theorem unverified_contract_gets_warning:
  assumes "fst (getContractDetails E (js_Number E (query_param request ''chainId''))
                  (query_param request ''contractAddress'')) = Inr None"
  shows "fst (getResponseData E request) = JStr warning_text
         \<and> res_body (fst (completion_handler E request)) = JObj [(''data'', JStr warning_text)]
         \<and> (\<forall>url payload. HttpPost url payload \<notin> set (snd (completion_handler E request)))"
  using getResponseData_try_unverified [OF assms] getContractDetails_no_post
  by (simp add: getResponseData_def completion_handler_def)

theorem unverified_contract_gets_warning_witness:
  "fst (getContractDetails unverified_env
          (js_Number unverified_env (query_param sample_request ''chainId''))
          (query_param sample_request ''contractAddress'')) = Inr None
   \<and> fst (getResponseData unverified_env sample_request) = JStr warning_text
   \<and> snd (completion_handler unverified_env sample_request) =
       [HttpGet ''https://api.etherscan.io/api?module=contract&action=getsourcecode&address=0xABC&apikey=undefined'']"
proof -
  have h: "fst (getContractDetails unverified_env
          (js_Number unverified_env (query_param sample_request ''chainId''))
          (query_param sample_request ''contractAddress'')) = Inr None"
    by code_simp
  have t: "snd (completion_handler unverified_env sample_request) =
       [HttpGet ''https://api.etherscan.io/api?module=contract&action=getsourcecode&address=0xABC&apikey=undefined'']"
    by code_simp
  from unverified_contract_gets_warning [OF h] h t show ?thesis by simp
qed

text \<open>The error sources the specification names, each inside the \<open>try\<close> block.\<close>

lemma transport_failure_raises:
  assumes "getContractDetailsApiEndpoint E (js_Number E (query_param request ''chainId''))
             (query_param request ''contractAddress'') = Some apiUri"
      and "axios_get E apiUri = Inl e"
  shows "getResponseData_try E request = (Inl e, [HttpGet apiUri])"
  using assms
  by (simp add: getResponseData_try_def getContractDetails_def bind_io_def lift_io_def Let_def)

lemma malformed_abi_raises:
  assumes "getContractDetails E (js_Number E (query_param request ''chainId''))
             (query_param request ''contractAddress'') = (Inr (Some details), t)"
      and "Interface_new E (abi details) = Inl e"
  shows "getResponseData_try E request = (Inl e, t)"
  using assms
  by (simp add: getResponseData_try_def getContractFunctionDetails_def
                bind_io_def bind_err_def lift_io_def Let_def)

lemma completion_rejection_raises:
  assumes "axios_post E (env_string E ''GPT_API_ENDPOINT'' @ ''/v1/chat/completions'')
             (JObj [(''model'', JStr ''gpt-3.5-turbo''),
                    (''messages'', JArr [JObj [(''role'', JStr ''user''),
                       (''content'', JStr (prompt_content E address cname code details))]])])
             [(''Content-Type'', ''application/json''),
              (''Authorization'', ''Bearer '' @ env_string E ''GPT_API_KEY'')] = outcome"
      and "outcome = Inl e \<or> (\<exists>response. outcome = Inr response \<and> ax_status response \<noteq> 200)"
  shows "\<exists>e'. fst (getGptCompletion E address cname code details) = Inl e'"
  using assms
  by (auto simp: getGptCompletion_def bind_io_def lift_io_def Let_def)

text \<open>
  C9. Whatever error is thrown inside the \<open>try\<close> block of \<open>getResponseData\<close>
  (a rejected request, a malformed ABI, a completion response that is not a
  success), the handler answers with the one fixed failure object, which does
  not depend on the error; the error itself is only logged, after the effects
  made before it, and nothing follows it.
\<close>

theorem errors_become_generic_failure:
  assumes "fst (getResponseData_try E request) = Inl e"
  shows "fst (completion_handler E request) =
           \<lparr>res_status = 200, res_headers = [],
            res_body = JObj [(''data'', JObj [(''error'', JStr ''An Error Occurred'')])]\<rparr>
         \<and> snd (completion_handler E request) =
             snd (getResponseData_try E request) @ [LogError e]"
  using assms
  by (cases "getResponseData_try E request")
     (simp add: completion_handler_def getResponseData_def generic_failure_def)

theorem errors_become_generic_failure_witness:
  "fst (getResponseData_try failing_completion_env sample_request) =
     Inl (Rejected ''Request failed with status code 500'')
   \<and> res_body (fst (completion_handler failing_completion_env sample_request)) =
       JObj [(''data'', JObj [(''error'', JStr ''An Error Occurred'')])]"
proof -
  have h: "fst (getResponseData_try failing_completion_env sample_request) =
     Inl (Rejected ''Request failed with status code 500'')"
    by code_simp
  from errors_become_generic_failure [OF h] h show ?thesis by simp
qed

section \<open>Properties of the Lens profile endpoint\<close>

text \<open>
  C10. Whenever \<open>getDefaultProfile\<close> sends a response, its body is fixed by
  the \<open>walletAddress\<close> query parameter alone: the handle is \<open>yusaka.test\<close>
  for the one constant address and \<open>sakasaka.test\<close> otherwise. Two runs on the
  same request against different GraphQL services send the same response.
\<close>

theorem default_profile_ignores_graphql:
  assumes "fst (getDefaultProfile P1 req) = Inr r1"
      and "fst (getDefaultProfile P2 req) = Inr r2"
  shows "r1 = r2
         \<and> res_status r1 = 200
         \<and> res_body r1 =
             JObj [(''data'', JObj [(''handle'',
               JStr (if query_param req ''walletAddress'' =
                          JStr ''0xd19B53464bBD3289823b278efb0461a903271004''
                     then ''yusaka.test'' else ''sakasaka.test''))])]"
  using assms
  by (auto simp: getDefaultProfile_def bind_io_def lift_io_def Let_def
           split: prod.splits sum.splits if_splits)

theorem default_profile_ignores_graphql_witness:
  "fst (getDefaultProfile (lens_env JNull) profile_request) =
     Inr \<lparr>res_status = 200, res_headers = [],
          res_body = JObj [(''data'', JObj [(''handle'', JStr ''yusaka.test'')])]\<rparr>
   \<and> fst (getDefaultProfile (lens_env (JObj [(''handle'', JStr ''someone.lens'')])) profile_request) =
     Inr \<lparr>res_status = 200, res_headers = [],
          res_body = JObj [(''data'', JObj [(''handle'', JStr ''yusaka.test'')])]\<rparr>"
proof -
  have a: "fst (getDefaultProfile (lens_env JNull) profile_request) =
     Inr \<lparr>res_status = 200, res_headers = [],
          res_body = JObj [(''data'', JObj [(''handle'', JStr ''yusaka.test'')])]\<rparr>"
    by code_simp
  obtain r2 where b: "fst (getDefaultProfile (lens_env (JObj [(''handle'', JStr ''someone.lens'')])) profile_request) = Inr r2"
    by (simp add: getDefaultProfile_def getDefaultProfileRequest_def lens_env_def
                  bind_io_def bind_err_def lift_io_def Let_def)
  from default_profile_ignores_graphql [OF a b] a b show ?thesis by simp
qed

section \<open>Properties of the wallet plug-in\<close>

lemma first_rejection_None_iff:
  "first_rejection order results = None \<longleftrightarrow> (\<forall>r \<in> set results. \<not> isl r)"
proof -
  have "first_rejection order results = None \<longleftrightarrow>
          filter (\<lambda>i. i < length results \<and> isl (results ! i)) (order @ [0..<length results]) = []"
    unfolding first_rejection_def
    by (cases "filter (\<lambda>i. i < length results \<and> isl (results ! i)) (order @ [0..<length results])")
       simp_all
  also have "\<dots> \<longleftrightarrow> (\<forall>i < length results. \<not> isl (results ! i))"
    by (auto simp: filter_empty_conv)
  also have "\<dots> \<longleftrightarrow> (\<forall>r \<in> set results. \<not> isl r)"
    by (simp add: all_set_conv_all_nth)
  finally show ?thesis .
qed

lemma first_rejection_Some:
  assumes "first_rejection order results = Some e"
  shows "Inl e \<in> set results"
proof -
  from assms obtain i rest where
    f: "filter (\<lambda>i. i < length results \<and> isl (results ! i)) (order @ [0..<length results]) = i # rest"
    and e: "e = projl (results ! i)"
    by (auto simp: first_rejection_def split: list.splits)
  from f have "i \<in> set (filter (\<lambda>i. i < length results \<and> isl (results ! i)) (order @ [0..<length results]))"
    by simp
  then have i: "i < length results" "isl (results ! i)" by auto
  with e have "results ! i = Inl e" by (cases "results ! i") auto
  with i show ?thesis by (metis nth_mem)
qed

lemma promise_all_trace: "snd (promise_all order promises) = concat (map snd promises)"
  by (simp add: promise_all_def split: option.splits)

lemma promise_all_rejects_iff:
  "isl (fst (promise_all order promises)) \<longleftrightarrow> (\<exists>p \<in> set promises. isl (fst p))"
proof (cases "first_rejection order (map fst promises)")
  case None
  then show ?thesis
    using first_rejection_None_iff [of order "map fst promises"] by (simp add: promise_all_def)
next
  case (Some e)
  then show ?thesis
    using first_rejection_None_iff [of order "map fst promises"] by (auto simp: promise_all_def)
qed

lemma promise_all_reason:
  assumes "fst (promise_all order promises) = Inl e"
  shows "\<exists>p \<in> set promises. fst p = Inl e"
proof -
  from assms have "first_rejection order (map fst promises) = Some e"
    by (auto simp: promise_all_def split: option.splits)
  from first_rejection_Some [OF this] have "Inl e \<in> fst ` set promises" by simp
  then show ?thesis by force
qed

lemma render_returns: "render values = Inr not_unique_human"
  by (simp add: render_def isVerifiedWorldId_def Let_def)

lemma onTransaction_fan_out:
  assumes "global_binding h ''worldId'' = Some v"
      and "manage_state_get h = Inr state" and "truthy state"
      and "tx_from tx = Some w" and "tx_to tx = Some a" and "tx_data tx = Some d"
      and "w \<noteq> []" and "a \<noteq> []" and "d \<noteq> []" and "chainId \<noteq> []"
  shows "onTransaction h chainId tx =
           (case promise_all (settle_order h) (lookups h w a d (extractedChainId chainId)) of
              (Inl e, t) \<Rightarrow> (Inl e, StateGet # t)
            | (Inr values, t) \<Rightarrow> (Inr not_unique_human, StateGet # t))"
  using assms
  by (simp add: onTransaction_def resolve_global_def bind_io_def lift_io_def render_returns
           split: prod.splits sum.splits)

text \<open>
  C1 (amended). \<open>worldId\<close> is bound nowhere in \<^verbatim>\<open>index.ts\<close>. When the host
  binds no such global either, every invocation of \<open>onTransaction\<close> whose
  state fetch resolves throws the reference error right after that fetch;
  and in every invocation, also when the state fetch rejects, the handler
  fails, returns no panel, and its only effect is the state fetch: none of
  the three lookups is made.
\<close>

theorem onTransaction_reference_error:
  assumes "global_binding h ''worldId'' = None"
  shows "''worldId'' \<notin> set index_ts_bindings
         \<and> (\<forall>state. manage_state_get h = Inr state \<longrightarrow>
               onTransaction h chainId tx =
                 (Inl (ReferenceError ''worldId is not defined''), [StateGet]))
         \<and> isl (fst (onTransaction h chainId tx))
         \<and> snd (onTransaction h chainId tx) = [StateGet]"
proof -
  have "''worldId'' \<notin> set index_ts_bindings"
    by (simp add: index_ts_bindings_def)
  moreover have "\<forall>state. manage_state_get h = Inr state \<longrightarrow>
               onTransaction h chainId tx =
                 (Inl (ReferenceError ''worldId is not defined''), [StateGet])"
    using assms by (simp add: onTransaction_def resolve_global_def bind_io_def lift_io_def)
  moreover have "isl (fst (onTransaction h chainId tx)) \<and> snd (onTransaction h chainId tx) = [StateGet]"
    using assms
    by (cases "manage_state_get h")
       (simp_all add: onTransaction_def resolve_global_def bind_io_def lift_io_def)
  ultimately show ?thesis by blast
qed

theorem onTransaction_reference_error_witness:
  "global_binding plain_host ''worldId'' = None
   \<and> manage_state_get plain_host = Inr (JObj [(''worldId'', JStr ''0x1'')])
   \<and> onTransaction plain_host ''eip155:1'' sample_transaction =
       (Inl (ReferenceError ''worldId is not defined''), [StateGet])"
proof -
  have g: "global_binding plain_host ''worldId'' = None"
    by (simp add: plain_host_def)
  have s: "manage_state_get plain_host = Inr (JObj [(''worldId'', JStr ''0x1'')])"
    by (simp add: plain_host_def)
  from onTransaction_reference_error [OF g, of "''eip155:1''" sample_transaction] g s
  show ?thesis by blast
qed

theorem onTransaction_state_fetch_counterexample:
  "global_binding state_rejecting_host ''worldId'' = None
   \<and> onTransaction state_rejecting_host ''eip155:1'' sample_transaction =
       (Inl (Rejected ''state unavailable''), [StateGet])
   \<and> fst (onTransaction state_rejecting_host ''eip155:1'' sample_transaction)
       \<noteq> Inl (ReferenceError ''worldId is not defined'')"
  by (simp add: state_rejecting_host_def plain_host_def onTransaction_def bind_io_def)

text \<open>
  C2. The verification flag is the constant \<open>False\<close>: whenever
  \<open>onTransaction\<close> returns normally, what it returns is the panel
  \<open>Not a unique human!!\<close>, and never the panel with the Lens and GPT insights.
\<close>

theorem onTransaction_never_returns_insights:
  assumes "fst (onTransaction h chainId tx) = Inr response"
  shows "\<not> isVerifiedWorldId
         \<and> response = not_unique_human
         \<and> (\<forall>handle approved completion. response \<noteq> insights handle approved completion)"
proof -
  have "response = not_unique_human"
    using assms
    by (auto simp: onTransaction_def bind_io_def lift_io_def render_returns
             split: prod.splits sum.splits if_splits option.splits)
  moreover have "\<forall>handle approved completion. not_unique_human \<noteq> insights handle approved completion"
    by (simp add: not_unique_human_def insights_def)
  ultimately show ?thesis by (simp add: isVerifiedWorldId_def)
qed

theorem onTransaction_never_returns_insights_witness:
  "fst (onTransaction worldId_host ''eip155:1'' sample_transaction) = Inr not_unique_human
   \<and> not_unique_human \<noteq> insights (JStr ''ok'') (JObj [(''data'', JStr ''ok'')]) (JStr ''ok'')"
proof -
  have r: "fst (onTransaction worldId_host ''eip155:1'' sample_transaction) = Inr not_unique_human"
    by code_simp
  from onTransaction_never_returns_insights [OF r] r show ?thesis by blast
qed

text \<open>
  C7. Once \<open>onTransaction\<close> reaches the fan-out (the reference to \<open>worldId\<close>
  resolves, the stored state is truthy and the four parameters are present),
  all three lookups are started, and the handler fails exactly when one of
  them fails, with the error of a failed lookup: a panel is returned only
  when all three have completed, and never from the results of the others.
\<close>

theorem onTransaction_all_or_nothing:
  assumes "global_binding h ''worldId'' = Some v"
      and "manage_state_get h = Inr state" and "truthy state"
      and "tx_from tx = Some w" and "tx_to tx = Some a" and "tx_data tx = Some d"
      and "w \<noteq> []" and "a \<noteq> []" and "d \<noteq> []" and "chainId \<noteq> []"
  shows "snd (onTransaction h chainId tx) =
           StateGet # concat (map snd (lookups h w a d (extractedChainId chainId)))
         \<and> (isl (fst (onTransaction h chainId tx)) \<longleftrightarrow>
              (\<exists>p \<in> set (lookups h w a d (extractedChainId chainId)). isl (fst p)))
         \<and> (\<forall>e. fst (onTransaction h chainId tx) = Inl e \<longrightarrow>
              (\<exists>p \<in> set (lookups h w a d (extractedChainId chainId)). fst p = Inl e))"
proof -
  let ?ps = "lookups h w a d (extractedChainId chainId)"
  let ?j = "promise_all (settle_order h) ?ps"
  have eq: "onTransaction h chainId tx =
           (case ?j of
              (Inl e, t) \<Rightarrow> (Inl e, StateGet # t)
            | (Inr values, t) \<Rightarrow> (Inr not_unique_human, StateGet # t))"
    by (rule onTransaction_fan_out [OF assms])
  have t: "snd (onTransaction h chainId tx) = StateGet # snd ?j"
    unfolding eq by (simp split: prod.splits sum.splits)
  have i: "isl (fst (onTransaction h chainId tx)) \<longleftrightarrow> isl (fst ?j)"
    unfolding eq by (simp split: prod.splits sum.splits)
  have e: "\<And>e. fst (onTransaction h chainId tx) = Inl e \<Longrightarrow> fst ?j = Inl e"
    unfolding eq by (simp split: prod.splits sum.splits)
  from t have "snd (onTransaction h chainId tx) = StateGet # concat (map snd ?ps)"
    by (simp add: promise_all_trace)
  moreover from i have "isl (fst (onTransaction h chainId tx)) \<longleftrightarrow> (\<exists>p \<in> set ?ps. isl (fst p))"
    by (simp add: promise_all_rejects_iff)
  moreover from e have "\<forall>e. fst (onTransaction h chainId tx) = Inl e \<longrightarrow> (\<exists>p \<in> set ?ps. fst p = Inl e)"
    using promise_all_reason by blast
  ultimately show ?thesis by blast
qed

theorem onTransaction_all_or_nothing_witness:
  "global_binding approval_failing_host ''worldId'' = Some (JStr ''0x1'')
   \<and> manage_state_get approval_failing_host = Inr (JObj [(''worldId'', JStr ''0x1'')])
   \<and> fst (getLensProfile approval_failing_host ''0xd19B53464bBD3289823b278efb0461a903271004'')
       = Inr (JObj [(''data'', JStr ''ok'')])
   \<and> fst (getLensApprovedAddressList approval_failing_host
            ''0xd19B53464bBD3289823b278efb0461a903271004''
            ''0xA0b86991c6218b36c1d19D4a2e9Eb0cE3606eB48'' ''0xa9059cbb'' ''1'')
       = Inl (JsError ''HTTP error! Status: 500'')
   \<and> fst (onTransaction approval_failing_host ''eip155:1'' sample_transaction)
       = Inl (JsError ''HTTP error! Status: 500'')
   \<and> length (snd (onTransaction approval_failing_host ''eip155:1'' sample_transaction)) = 4"
proof -
  have g: "global_binding approval_failing_host ''worldId'' = Some (JStr ''0x1'')"
    by (simp add: approval_failing_host_def worldId_host_def plain_host_def)
  have s: "manage_state_get approval_failing_host = Inr (JObj [(''worldId'', JStr ''0x1'')])"
    by (simp add: approval_failing_host_def worldId_host_def plain_host_def)
  have p: "fst (getLensProfile approval_failing_host ''0xd19B53464bBD3289823b278efb0461a903271004'')
       = Inr (JObj [(''data'', JStr ''ok'')])"
    by code_simp
  have q: "fst (getLensApprovedAddressList approval_failing_host
            ''0xd19B53464bBD3289823b278efb0461a903271004''
            ''0xA0b86991c6218b36c1d19D4a2e9Eb0cE3606eB48'' ''0xa9059cbb'' ''1'')
       = Inl (JsError ''HTTP error! Status: 500'')"
    by code_simp
  have r: "fst (onTransaction approval_failing_host ''eip155:1'' sample_transaction)
       = Inl (JsError ''HTTP error! Status: 500'')"
    by code_simp
  have "snd (onTransaction approval_failing_host ''eip155:1'' sample_transaction) =
          StateGet # concat (map snd (lookups approval_failing_host
            ''0xd19B53464bBD3289823b278efb0461a903271004''
            ''0xA0b86991c6218b36c1d19D4a2e9Eb0cE3606eB48'' ''0xa9059cbb''
            (extractedChainId ''eip155:1'')))"
    using onTransaction_all_or_nothing [OF g s, of sample_transaction
            "''0xd19B53464bBD3289823b278efb0461a903271004''"
            "''0xA0b86991c6218b36c1d19D4a2e9Eb0cE3606eB48''" "''0xa9059cbb''" "''eip155:1''"]
    by (simp add: sample_transaction_def)
  then have "length (snd (onTransaction approval_failing_host ''eip155:1'' sample_transaction)) = 4"
    by (simp add: lookups_def getLensProfile_def getLensApprovedAddressList_def
                  getGptCompletion_snap_def fetch_json_def)
  with g s p q r show ?thesis by blast
qed

end
